theory Spec2Isabelle
  imports Main "HOL-Library.Sublist"
begin

section \<open>The platform: exceptions, logging, clock, filesystem, child processes\<close>

text \<open>
  \<^verbatim>\<open>tools.py\<close> is a layer over \<^verbatim>\<open>subprocess.run\<close>, \<^verbatim>\<open>logging\<close>,
  \<^verbatim>\<open>datetime\<close> and \<^verbatim>\<open>shutil.rmtree\<close>. Everything these calls observe or change
  is made explicit: an environment \<open>env\<close> says how the operating system answers
  (which programs resolve, what a child does, what the wall clock reads), and a \<open>world\<close>
  holds what the calls change (the filesystem, the log records emitted, the argument
  vectors handed to \<^verbatim>\<open>subprocess.run\<close>, the number of clock readings taken).
  Tokens are Python \<^verbatim>\<open>str\<close> values, as the docstring of \<^verbatim>\<open>run_command\<close> asks.
  A \<open>string\<close> is a list of bytes: it stands for the bytes a child writes, and for a
  Python \<^verbatim>\<open>str\<close> through the bytes of its UTF-8 encoding.
\<close>

datatype py_exception =
    IndexError
  | ValueError
  | UnicodeDecodeError
  | OSError
  | FileNotFoundError
  | PermissionError
  | NotADirectoryError
  | NameError
  | NonZeroReturnException

datatype level = DEBUG | INFO | WARNING | ERROR

text \<open>
  What a path names: a directory tree the process may delete; a directory tree it may
  not delete entirely (something in it, or its parent, refuses); a symbolic link; a
  regular file.
\<close>

datatype node = Directory | Protected_Directory | Symlink | RegularFile

type_synonym filesys = "string \<Rightarrow> node option"

datatype stream = Stdout | Stderr

text \<open>
  What a launched child does: the chunks of bytes it writes, each to its standard output
  or its standard error, in the order it writes them; its exit status (negative when a
  signal ended it); and the filesystem it leaves.
\<close>

record child =
  writes :: "(stream \<times> string) list"
  exitcode :: int
  files_after :: filesys

text \<open>
  How \<^verbatim>\<open>exec\<close> answers for a first token: no such file (\<^verbatim>\<open>ENOENT\<close>); a file without
  execute permission (\<^verbatim>\<open>EACCES\<close>); a file that cannot be started for another reason
  (\<^verbatim>\<open>ENOEXEC\<close>, \<^verbatim>\<open>ENAMETOOLONG\<close>, ...); or an executable.
\<close>

datatype resolution = Not_Found | Not_Executable | Not_Startable | Executable

text \<open>
  The environment also holds the codec of the locale encoding, with strict error
  handling (\<open>None\<close> where the bytes do not decode), and says what a failed
  \<^verbatim>\<open>shutil.rmtree\<close> had already removed below a path when it stopped.
\<close>

record env =
  resolve :: "string \<Rightarrow> resolution"
  program :: "string list \<Rightarrow> filesys \<Rightarrow> child"
  decode :: "string \<Rightarrow> string option"
  clock :: "nat \<Rightarrow> int"
  removed_before_failure :: "string \<Rightarrow> string \<Rightarrow> bool"

record world =
  files :: filesys
  log_records :: "(level \<times> string) list"
  launches :: "string list list"
  ticks :: nat

text \<open>\<^verbatim>\<open>logging.info\<close>, \<^verbatim>\<open>logging.debug\<close>, \<^verbatim>\<open>logging.warn\<close>, \<^verbatim>\<open>logging.error\<close>:
  one record of the given severity is handed to the root logger.\<close>

definition logging :: "level \<Rightarrow> string \<Rightarrow> world \<Rightarrow> world" where
  "logging lv msg w = w\<lparr>log_records := log_records w @ [(lv, msg)]\<rparr>"

text \<open>\<^verbatim>\<open>dt.datetime.now()\<close>: the next reading of the wall clock, in microseconds.
  Wall-clock readings need not increase.\<close>

definition datetime_now :: "env \<Rightarrow> world \<Rightarrow> int \<times> world" where
  "datetime_now e w = (clock e (ticks w), w\<lparr>ticks := Suc (ticks w)\<rparr>)"

text \<open>\<^verbatim>\<open>timedelta.seconds\<close>: a \<^verbatim>\<open>timedelta\<close> is normalised to days, seconds in
  \<open>0..86399\<close> and microseconds in \<open>0..999999\<close>.\<close>

definition timedelta_seconds :: "int \<Rightarrow> int" where
  "timedelta_seconds us = (us div 1000000) mod 86400"

subsection \<open>\<^verbatim>\<open>str\<close> of an integer and \<^verbatim>\<open>" ".join\<close>\<close>

definition digit_char :: "nat \<Rightarrow> char" where
  "digit_char d = ''0123456789'' ! d"

fun str_nat :: "nat \<Rightarrow> string" where
  "str_nat n = (if n < 10 then [digit_char n] else str_nat (n div 10) @ [digit_char (n mod 10)])"

declare str_nat.simps [simp del]

definition py_str :: "int \<Rightarrow> string" where
  "py_str i = (if i < 0 then CHR ''-'' # str_nat (nat (- i)) else str_nat (nat i))"

fun join :: "string \<Rightarrow> string list \<Rightarrow> string" where
  "join sep [] = []"
| "join sep [x] = x"
| "join sep (x # y # ys) = x @ sep @ join sep (y # ys)"

subsection \<open>\<^verbatim>\<open>subprocess.run\<close>\<close>

datatype redirect = Inherit | PIPE | STDOUT | DEVNULL

record completed_process =
  args :: "string list"
  returncode :: int
  stdout :: "string option"
  stderr :: "string option"

text \<open>
  Launching: an empty argument vector has no \<^verbatim>\<open>args[0]\<close>; a token with an embedded
  null byte cannot be passed to \<^verbatim>\<open>exec\<close>; a first token that does not resolve to an
  executable file makes \<^verbatim>\<open>exec\<close> fail, and the failure is raised in the parent as
  the \<^verbatim>\<open>OSError\<close> subclass of its \<^verbatim>\<open>errno\<close> (\<^verbatim>\<open>FileNotFoundError\<close>,
  \<^verbatim>\<open>PermissionError\<close>) or as \<^verbatim>\<open>OSError\<close> itself. Otherwise the child runs to its
  end.
\<close>

definition popen :: "env \<Rightarrow> string list \<Rightarrow> filesys \<Rightarrow> py_exception + child" where
  "popen e argv fs =
     (case argv of
        [] \<Rightarrow> Inl IndexError
      | prog # _ \<Rightarrow>
          if CHR 0x00 \<in> set (concat argv) then Inl ValueError
          else (case resolve e prog of
                  Not_Found \<Rightarrow> Inl FileNotFoundError
                | Not_Executable \<Rightarrow> Inl PermissionError
                | Not_Startable \<Rightarrow> Inl OSError
                | Executable \<Rightarrow> Inr (program e argv fs)))"

text \<open>
  Capturing: with \<^verbatim>\<open>stdout=PIPE\<close> the bytes written to the child's standard output
  are collected; with \<^verbatim>\<open>stderr=STDOUT\<close> the child's standard error is the same pipe, so
  its chunks arrive there too, in the order written, and nothing is collected separately
  for the error stream (\<^verbatim>\<open>CompletedProcess.stderr\<close> is \<^verbatim>\<open>None\<close>).
\<close>

definition captured_stdout :: "redirect \<Rightarrow> redirect \<Rightarrow> (stream \<times> string) list \<Rightarrow> string option" where
  "captured_stdout out err ws =
     (if out = PIPE
      then Some (concat (map snd (filter (\<lambda>(s, t). s = Stdout \<or> err = STDOUT) ws)))
      else None)"

definition captured_stderr :: "redirect \<Rightarrow> (stream \<times> string) list \<Rightarrow> string option" where
  "captured_stderr err ws =
     (if err = PIPE
      then Some (concat (map snd (filter (\<lambda>(s, t). s = Stderr) ws)))
      else None)"

text \<open>
  Reading a pipe: with \<^verbatim>\<open>text=True\<close> the bytes collected are decoded in the locale
  encoding, which raises \<^verbatim>\<open>UnicodeDecodeError\<close> where they do not decode, and then
  every \<^verbatim>\<open>\r\n\<close> and every remaining \<^verbatim>\<open>\r\<close> becomes \<^verbatim>\<open>\n\<close>. Without it the bytes
  are returned as they are.
\<close>

fun universal_newlines :: "string \<Rightarrow> string" where
  "universal_newlines (c # d # cs) =
     (if c = CHR 0x0D \<and> d = CHR 0x0A then CHR 0x0A # universal_newlines cs
      else if c = CHR 0x0D then CHR 0x0A # universal_newlines (d # cs)
      else c # universal_newlines (d # cs))"
| "universal_newlines [c] = (if c = CHR 0x0D then [CHR 0x0A] else [c])"
| "universal_newlines [] = []"

definition read_pipe :: "env \<Rightarrow> bool \<Rightarrow> string option \<Rightarrow> py_exception + string option" where
  "read_pipe e text collected =
     (case collected of
        None \<Rightarrow> Inr None
      | Some bytes \<Rightarrow>
          if text
          then (case decode e bytes of
                  None \<Rightarrow> Inl UnicodeDecodeError
                | Some t \<Rightarrow> Inr (Some (universal_newlines t)))
          else Inr (Some bytes))"

text \<open>
  \<^verbatim>\<open>subprocess.run(args, text=..., stdout=..., stderr=...)\<close>. The pipes are read after
  the child has run, so a decoding failure leaves the filesystem as the child left it.
\<close>

definition subprocess_run ::
  "env \<Rightarrow> string list \<Rightarrow> bool \<Rightarrow> redirect \<Rightarrow> redirect \<Rightarrow> world
     \<Rightarrow> (py_exception + completed_process) \<times> world" where
  "subprocess_run e argv text out err w =
     (let w1 = w\<lparr>launches := launches w @ [argv]\<rparr>
      in case popen e argv (files w1) of
           Inl ex \<Rightarrow> (Inl ex, w1)
         | Inr c \<Rightarrow>
             (let w2 = w1\<lparr>files := files_after c\<rparr>
              in case read_pipe e text (captured_stdout out err (writes c)) of
                   Inl ex \<Rightarrow> (Inl ex, w2)
                 | Inr so \<Rightarrow>
                     (case read_pipe e text (captured_stderr err (writes c)) of
                        Inl ex \<Rightarrow> (Inl ex, w2)
                      | Inr se \<Rightarrow>
                          (Inr \<lparr>args = argv, returncode = exitcode c, stdout = so, stderr = se\<rparr>,
                           w2))))"

section \<open>\<^verbatim>\<open>run_command\<close>\<close>

text \<open>
  The value returned is Python's: the triple \<^verbatim>\<open>(cp.stderr, cp.stdout, cp.returncode)\<close>
  as \<open>Some\<close>, or \<open>None\<close> where the function ends without a \<^verbatim>\<open>return\<close>. An exception
  that leaves the function is \<open>Inl\<close>.
\<close>

type_synonym run_result = "(string option \<times> string option \<times> int) option"

definition run_command :: "env \<Rightarrow> string list \<Rightarrow> world \<Rightarrow> (py_exception + run_result) \<times> world" where
  "run_command e cmd w =
     (let cmdstr = join '' '' cmd;
          w1 = logging INFO (''running command: '' @ cmdstr @ '' '') w;
          (start, w2) = datetime_now e w1
      in case subprocess_run e cmd True PIPE STDOUT w2 of
           (Inl ex, w3) \<Rightarrow> (Inl ex, w3)
         | (Inr cp, w3) \<Rightarrow>
             (let (end, w4) = datetime_now e w3;
                  elapsed = end - start;
                  w5 = logging DEBUG (''ran cmd='' @ [CHR 0x27] @ cmdstr @ [CHR 0x27] @ '' return=''
                         @ py_str (returncode cp) @ '' '' @ py_str (timedelta_seconds elapsed)
                         @ '' seconds.'') w4;
                  w6 = (case stderr cp of
                          Some t \<Rightarrow> logging DEBUG (''got stderr: '' @ t) w5
                        | None \<Rightarrow> w5);
                  w7 = (case stdout cp of
                          Some t \<Rightarrow> logging DEBUG (''got stdout: '' @ t) w6
                        | None \<Rightarrow> w6)
              in if py_str (returncode cp) = ''0''
                 then (Inr (Some (stderr cp, stdout cp, returncode cp)),
                       logging INFO (''successfully ran '' @ cmdstr) w7)
                 else (Inr None,
                       logging WARNING (''non-zero return code for cmd '' @ cmdstr) w7)))"

text \<open>The log records of one call, in the order emitted, when the child was launched and
  its output read as the text \<open>out\<close>.\<close>

definition run_log :: "string list \<Rightarrow> child \<Rightarrow> string \<Rightarrow> int \<Rightarrow> (level \<times> string) list" where
  "run_log cmd c out elapsed =
     [(INFO, ''running command: '' @ join '' '' cmd @ '' ''),
      (DEBUG, ''ran cmd='' @ [CHR 0x27] @ join '' '' cmd @ [CHR 0x27] @ '' return=''
         @ py_str (exitcode c) @ '' '' @ py_str (timedelta_seconds elapsed) @ '' seconds.''),
      (DEBUG, ''got stdout: '' @ out),
      (if exitcode c = 0 then (INFO, ''successfully ran '' @ join '' '' cmd)
       else (WARNING, ''non-zero return code for cmd '' @ join '' '' cmd))]"


section \<open>The wrappers\<close>

text \<open>
  \<^verbatim>\<open>shutil.rmtree(path)\<close> with the default \<^verbatim>\<open>ignore_errors=False\<close>: a path that does
  not exist raises \<^verbatim>\<open>FileNotFoundError\<close>, a regular file raises
  \<^verbatim>\<open>NotADirectoryError\<close>, a symbolic link raises \<^verbatim>\<open>OSError\<close>. A directory tree
  that cannot be deleted entirely raises \<^verbatim>\<open>PermissionError\<close> at the entry that
  refuses; what was removed below the path before that stays removed, and the path
  itself stays. Otherwise the directory goes, with everything below it.
\<close>

definition shutil_rmtree :: "env \<Rightarrow> string \<Rightarrow> world \<Rightarrow> (py_exception + unit) \<times> world" where
  "shutil_rmtree e path w =
     (case files w path of
        None \<Rightarrow> (Inl FileNotFoundError, w)
      | Some RegularFile \<Rightarrow> (Inl NotADirectoryError, w)
      | Some Symlink \<Rightarrow> (Inl OSError, w)
      | Some Protected_Directory \<Rightarrow>
          (Inl PermissionError,
           w\<lparr>files := (\<lambda>q. if prefix (path @ ''/'') q \<and> removed_before_failure e path q then None
                            else files w q)\<rparr>)
      | Some Directory \<Rightarrow>
          (Inr (), w\<lparr>files := (\<lambda>q. if q = path \<or> prefix (path @ ''/'') q then None
                                     else files w q)\<rparr>))"

text \<open>
  Every wrapper runs its command inside the same block:
  \<^verbatim>\<open>
  try:
      run_command(cmd)
  except NonZeroReturnException as nzre:
      logging.error(<problem>)
      logging.error(traceback.format_exc(None))
  \<close>
  The handler catches \<^verbatim>\<open>NonZeroReturnException\<close> only; any other exception leaves the
  block. Inside the handler the first \<^verbatim>\<open>logging.error\<close> is emitted, and the second
  evaluates the name \<^verbatim>\<open>traceback\<close>, which the module never imports: \<^verbatim>\<open>NameError\<close>.
  The result of \<^verbatim>\<open>run_command\<close> is dropped.
\<close>

definition try_run_command ::
  "env \<Rightarrow> string list \<Rightarrow> string \<Rightarrow> world \<Rightarrow> (py_exception + unit) \<times> world" where
  "try_run_command e cmd problem w =
     (case run_command e cmd w of
        (Inl ex, w1) \<Rightarrow>
          if ex = NonZeroReturnException
          then (Inl NameError, logging ERROR problem w1)
          else (Inl ex, w1)
      | (Inr r, w1) \<Rightarrow> (Inr (), w1))"

text \<open>The same block with its \<^verbatim>\<open>except\<close> clause taken away, to compare with.\<close>

definition run_command_unhandled ::
  "env \<Rightarrow> string list \<Rightarrow> world \<Rightarrow> (py_exception + unit) \<times> world" where
  "run_command_unhandled e cmd w =
     (case run_command e cmd w of
        (Inl ex, w1) \<Rightarrow> (Inl ex, w1)
      | (Inr r, w1) \<Rightarrow> (Inr (), w1))"

definition fasterq_dump_cmd :: "string \<Rightarrow> string \<Rightarrow> string \<Rightarrow> string \<Rightarrow> string list" where
  "fasterq_dump_cmd infile outdir nthreads tempdir =
     [''fasterq-dump'', ''--split-files'', ''--include-technical'', ''--force'',
      ''--threads'', nthreads, ''--outdir'', outdir, ''-t'', tempdir,
      ''--log-level'', ''debug'', infile]"

definition fasterq_dump ::
  "env \<Rightarrow> string \<Rightarrow> string \<Rightarrow> string \<Rightarrow> string \<Rightarrow> world \<Rightarrow> (py_exception + unit) \<times> world" where
  "fasterq_dump e infile outdir nthreads tempdir w =
     try_run_command e (fasterq_dump_cmd infile outdir nthreads tempdir)
       (''problem with '' @ infile) w"

definition star_nowasp_cmd ::
  "string \<Rightarrow> string \<Rightarrow> string \<Rightarrow> string \<Rightarrow> string \<Rightarrow> string \<Rightarrow> string list" where
  "star_nowasp_cmd end1 end2 outprefix outtemp nthreads genomedir =
     [''STAR'', ''--readFilesIn'', end1, end2, ''--outFileNamePrefix'', outprefix,
      ''--outTmpDir'', outtemp, ''--runThreadN'', nthreads, ''--genomeDir'', genomedir,
      ''--twopassMode Basic'', ''--twopass1readsN -1'', ''--outSAMtype BAM Unsorted'',
      ''--quantMode GeneCounts'']"

text \<open>
  \<^verbatim>\<open>star_nowasp\<close> adds a \<^verbatim>\<open>finally\<close> clause with two \<^verbatim>\<open>shutil.rmtree\<close> calls. The
  clause runs however the block above it ended. An exception raised inside it replaces
  the pending one and skips the rest of the clause; if the clause ends normally, a
  pending exception is raised again.
\<close>

definition star_nowasp ::
  "env \<Rightarrow> string \<Rightarrow> string \<Rightarrow> string \<Rightarrow> string \<Rightarrow> string \<Rightarrow> string \<Rightarrow> world
     \<Rightarrow> (py_exception + unit) \<times> world" where
  "star_nowasp e end1 end2 outprefix outtemp nthreads genomedir w =
     (let (r, w1) = try_run_command e (star_nowasp_cmd end1 end2 outprefix outtemp nthreads genomedir)
                      (''problem with '' @ end1 @ ''/'' @ end2 @ '' input files.'') w
      in case shutil_rmtree e (outprefix @ ''_STARgenome'') w1 of
           (Inl ex, w2) \<Rightarrow> (Inl ex, w2)
         | (Inr u, w2) \<Rightarrow>
             (case shutil_rmtree e (outprefix @ ''_STARpass1'') w2 of
                (Inl ex, w3) \<Rightarrow> (Inl ex, w3)
              | (Inr u', w3) \<Rightarrow> (r, w3)))"

text \<open>In \<^verbatim>\<open>samtools_sort\<close> and \<^verbatim>\<open>samtools_index\<close> the f-string \<^verbatim>\<open>f'{x}'\<close> of a
  \<^verbatim>\<open>str\<close> is that string.\<close>

definition samtools_sort_cmd :: "string \<Rightarrow> string \<Rightarrow> string \<Rightarrow> string \<Rightarrow> string list" where
  "samtools_sort_cmd infile outfile memory nthreads =
     [''samtools'', ''sort'', ''-m'', memory @ ''M'', ''-o'', outfile, ''-O'', ''bam'',
      ''-@'', nthreads, infile]"

definition samtools_sort ::
  "env \<Rightarrow> string \<Rightarrow> string \<Rightarrow> string \<Rightarrow> string \<Rightarrow> world \<Rightarrow> (py_exception + unit) \<times> world" where
  "samtools_sort e infile outfile memory nthreads w =
     try_run_command e (samtools_sort_cmd infile outfile memory nthreads)
       (''problem with '' @ infile) w"

definition samtools_index_cmd :: "string \<Rightarrow> string \<Rightarrow> string list" where
  "samtools_index_cmd infile nthreads = [''samtools'', ''index'', ''-@'', nthreads, infile]"

definition samtools_index ::
  "env \<Rightarrow> string \<Rightarrow> string \<Rightarrow> world \<Rightarrow> (py_exception + unit) \<times> world" where
  "samtools_index e infile nthreads w =
     try_run_command e (samtools_index_cmd infile nthreads) (''problem with '' @ infile) w"

definition samtools_view_region_cmd :: "string \<Rightarrow> string \<Rightarrow> string \<Rightarrow> string list" where
  "samtools_view_region_cmd infile outfile region =
     [''samtools'', ''view'', ''-b'', infile, ''-o'', outfile, region]"

definition samtools_view_region ::
  "env \<Rightarrow> string \<Rightarrow> string \<Rightarrow> string \<Rightarrow> world \<Rightarrow> (py_exception + unit) \<times> world" where
  "samtools_view_region e infile outfile region w =
     try_run_command e (samtools_view_region_cmd infile outfile region)
       (''problem with '' @ infile) w"

definition samtools_view_quality_cmd :: "string \<Rightarrow> string \<Rightarrow> string \<Rightarrow> string list" where
  "samtools_view_quality_cmd infile outfile quality =
     [''samtools'', ''view'', ''-q'', quality, ''-b'', infile, ''-o'', outfile]"

definition samtools_view_quality ::
  "env \<Rightarrow> string \<Rightarrow> string \<Rightarrow> string \<Rightarrow> world \<Rightarrow> (py_exception + unit) \<times> world" where
  "samtools_view_quality e infile outfile quality w =
     try_run_command e (samtools_view_quality_cmd infile outfile quality)
       (''problem with '' @ infile) w"

definition gatk_arrg_cmd :: "string \<Rightarrow> string \<Rightarrow> string list" where
  "gatk_arrg_cmd infile outfile =
     [''gatk'', ''AddOrReplaceReadGroups'', ''-I'', infile, ''-O'', outfile,
      ''-SO'', ''coordinate'', ''-RGID'', ''id'', ''-RGLB'', ''library'',
      ''-RGPL'', ''platform'', ''-RGPU'', ''machine'', ''-RGSM'', ''sample'']"

definition gatk_arrg :: "env \<Rightarrow> string \<Rightarrow> string \<Rightarrow> world \<Rightarrow> (py_exception + unit) \<times> world" where
  "gatk_arrg e infile outfile w =
     try_run_command e (gatk_arrg_cmd infile outfile) (''problem with '' @ infile) w"

definition gatk_md_cmd :: "string \<Rightarrow> string \<Rightarrow> string \<Rightarrow> string list" where
  "gatk_md_cmd infile outfile metrics =
     [''gatk'', ''MarkDuplicates'', ''-I'', infile, ''-O'', outfile,
      ''-CREATE_INDEX'', ''true'', ''-VALIDATION_STRINGENCY'', ''SILENT'', ''-M'', metrics]"

definition gatk_md ::
  "env \<Rightarrow> string \<Rightarrow> string \<Rightarrow> string \<Rightarrow> world \<Rightarrow> (py_exception + unit) \<times> world" where
  "gatk_md e infile outfile metrics w =
     try_run_command e (gatk_md_cmd infile outfile metrics) (''problem with '' @ infile) w"

definition gatk_sncr_cmd :: "string \<Rightarrow> string \<Rightarrow> string \<Rightarrow> string list" where
  "gatk_sncr_cmd infile outfile genome =
     [''gatk'', ''SplitNCigarReads'', ''-R'', genome, ''-I'', infile, ''-O'', outfile]"

definition gatk_sncr ::
  "env \<Rightarrow> string \<Rightarrow> string \<Rightarrow> string \<Rightarrow> world \<Rightarrow> (py_exception + unit) \<times> world" where
  "gatk_sncr e infile outfile genome w =
     try_run_command e (gatk_sncr_cmd infile outfile genome) (''problem with '' @ infile) w"

text \<open>\<^verbatim>\<open>gatk_htc\<close> takes \<^verbatim>\<open>interval\<close> and does not use it.\<close>

definition gatk_htc_cmd :: "string \<Rightarrow> string \<Rightarrow> string \<Rightarrow> string \<Rightarrow> string list" where
  "gatk_htc_cmd infile outfile genome interval =
     [''gatk'', ''HaplotypeCaller'', ''-R'', genome, ''-I'', infile, ''-O'', outfile,
      ''--dont-use-soft-clipped-bases'', ''-stand-call-conf'', ''0.0'']"

definition gatk_htc ::
  "env \<Rightarrow> string \<Rightarrow> string \<Rightarrow> string \<Rightarrow> string \<Rightarrow> world \<Rightarrow> (py_exception + unit) \<times> world" where
  "gatk_htc e infile outfile genome interval w =
     try_run_command e (gatk_htc_cmd infile outfile genome interval)
       (''problem with '' @ infile) w"

section \<open>A concrete machine\<close>

text \<open>
  An environment to run the definitions on. The locale encoding is UTF-8.
  \<^verbatim>\<open>echo\<close> prints its arguments and exits 0. \<^verbatim>\<open>printf\<close> prints its format, with
  \<^verbatim>\<open>\r\<close> and \<^verbatim>\<open>\n\<close> read as carriage return and line feed, and exits 0.
  \<^verbatim>\<open>samtools index\<close> reports on its standard error, prints on its standard output
  and exits 0; any other \<^verbatim>\<open>samtools\<close> command with \<^verbatim>\<open>-o\<close> writes to that file,
  prints nothing and exits 0; \<^verbatim>\<open>samtools view -b\<close> without \<^verbatim>\<open>-o\<close> prints
  compressed binary output, and exits 0 for a whole file and 1, with a complaint, for
  a region of a file that has no index. \<^verbatim>\<open>STAR\<close> makes its two working directories
  beside the output prefix and exits 0 when its first input file exists, and otherwise
  complains on its standard error, makes nothing and exits 104. \<^verbatim>\<open>gatk\<close> is
  installed without execute permission; nothing else is installed. The clock advances
  one and a half seconds per reading; a failed \<^verbatim>\<open>shutil.rmtree\<close> has removed nothing.
\<close>

definition continuation :: "char \<Rightarrow> bool" where
  "continuation c \<longleftrightarrow> (0x80::nat) \<le> of_char c \<and> of_char c \<le> (0xBF::nat)"

fun utf8_valid :: "string \<Rightarrow> bool" where
  "utf8_valid [] = True"
| "utf8_valid (b # bs) =
     (if of_char b < (0x80::nat) then utf8_valid bs
      else if (0xC2::nat) \<le> of_char b \<and> of_char b \<le> (0xDF::nat)
      then (case bs of
              c1 # r \<Rightarrow> continuation c1 \<and> utf8_valid r
            | [] \<Rightarrow> False)
      else if (0xE0::nat) \<le> of_char b \<and> of_char b \<le> (0xEF::nat)
      then (case bs of
              c1 # c2 # r \<Rightarrow>
                continuation c1 \<and> continuation c2
                \<and> (if of_char b = (0xE0::nat) then (0xA0::nat) \<le> of_char c1 else True)
                \<and> (if of_char b = (0xED::nat) then of_char c1 \<le> (0x9F::nat) else True)
                \<and> utf8_valid r
            | [c1] \<Rightarrow> False
            | [] \<Rightarrow> False)
      else if (0xF0::nat) \<le> of_char b \<and> of_char b \<le> (0xF4::nat)
      then (case bs of
              c1 # c2 # c3 # r \<Rightarrow>
                continuation c1 \<and> continuation c2 \<and> continuation c3
                \<and> (if of_char b = (0xF0::nat) then (0x90::nat) \<le> of_char c1 else True)
                \<and> (if of_char b = (0xF4::nat) then of_char c1 \<le> (0x8F::nat) else True)
                \<and> utf8_valid r
            | [c1, c2] \<Rightarrow> False
            | [c1] \<Rightarrow> False
            | [] \<Rightarrow> False)
      else False)"

definition utf8_decode :: "string \<Rightarrow> string option" where
  "utf8_decode bytes = (if utf8_valid bytes then Some bytes else None)"

fun printf_escapes :: "string \<Rightarrow> string" where
  "printf_escapes (c # d # cs) =
     (if c = CHR 0x5C \<and> d = CHR ''r'' then CHR 0x0D # printf_escapes cs
      else if c = CHR 0x5C \<and> d = CHR ''n'' then CHR 0x0A # printf_escapes cs
      else c # printf_escapes (d # cs))"
| "printf_escapes [c] = [c]"
| "printf_escapes [] = []"

text \<open>The first bytes of a BGZF block, as every BAM file starts.\<close>

definition bgzf_magic :: string where
  "bgzf_magic = [CHR 0x1F, CHR 0x8B, CHR 0x08, CHR 0x04]"

definition demo_program :: "string list \<Rightarrow> filesys \<Rightarrow> child" where
  "demo_program argv fs =
     (if hd argv = ''echo''
      then \<lparr>writes = [(Stdout, join '' '' (tl argv) @ [CHR 0x0A])], exitcode = 0, files_after = fs\<rparr>
      else if hd argv = ''printf''
      then \<lparr>writes = [(Stdout, printf_escapes (argv ! 1))], exitcode = 0, files_after = fs\<rparr>
      else if hd argv = ''samtools''
      then (if argv ! 1 = ''index''
            then \<lparr>writes = [(Stderr, ''[bam_sort_core] merging''), (Stdout, [CHR 0x0A]), (Stdout, ''done'')],
                  exitcode = 0, files_after = fs\<rparr>
            else if ''-o'' \<in> set argv
            then \<lparr>writes = [], exitcode = 0, files_after = fs\<rparr>
            else if length argv = 4
            then \<lparr>writes = [(Stdout, bgzf_magic)], exitcode = 0, files_after = fs\<rparr>
            else \<lparr>writes = [(Stdout, bgzf_magic), (Stderr, ''[main_samview] no index'')],
                  exitcode = 1, files_after = fs\<rparr>)
      else if fs (argv ! 2) = Some RegularFile
      then \<lparr>writes = [], exitcode = 0,
            files_after = fs((argv ! 5) @ ''_STARgenome'' \<mapsto> Directory,
                             (argv ! 5) @ ''_STARpass1'' \<mapsto> Directory)\<rparr>
      else \<lparr>writes = [(Stderr, ''EXITING: could not open readFilesIn'')], exitcode = 104,
            files_after = fs\<rparr>)"

definition demo_env :: env where
  "demo_env =
     \<lparr>resolve = (\<lambda>prog. if prog \<in> {''echo'', ''printf'', ''samtools'', ''STAR''} then Executable
                         else if prog = ''gatk'' then Not_Executable else Not_Found),
      program = demo_program,
      decode = utf8_decode,
      clock = (\<lambda>n. 1500000 * int n),
      removed_before_failure = (\<lambda>path q. False)\<rparr>"

definition empty_world :: world where
  "empty_world = \<lparr>files = (\<lambda>p. None), log_records = [], launches = [], ticks = 0\<rparr>"

text \<open>A world in which the first input file of the alignment exists.\<close>

definition reads_world :: world where
  "reads_world = \<lparr>files = [''r1.fq'' \<mapsto> RegularFile], log_records = [], launches = [], ticks = 0\<rparr>"

text \<open>A world in which an earlier run left one of the two working directories behind.\<close>

definition stale_world :: world where
  "stale_world = \<lparr>files = [''out_STARgenome'' \<mapsto> Directory], log_records = [], launches = [], ticks = 0\<rparr>"

section \<open>Properties\<close>

lemma universal_newlines_no_cr:
  "CHR 0x0D \<notin> set t \<Longrightarrow> universal_newlines t = t"
  by (induction t rule: universal_newlines.induct) auto

subsection \<open>\<^verbatim>\<open>str\<close> is \<^verbatim>\<open>'0'\<close> exactly at zero\<close>

lemma digit_char_zero_iff: "d < 10 \<Longrightarrow> digit_char d = CHR ''0'' \<longleftrightarrow> d = 0"
proof -
  assume "d < 10"
  then have "d \<in> {0, 1, 2, 3, 4, 5, 6, 7, 8, 9}"
    by auto
  then show ?thesis
    by (auto simp: digit_char_def)
qed

lemma str_nat_not_empty: "str_nat n \<noteq> []"
  by (subst str_nat.simps) simp

lemma str_nat_zero_iff: "str_nat n = ''0'' \<longleftrightarrow> n = 0"
proof (cases "n < 10")
  case True
  then show ?thesis
    by (subst str_nat.simps) (simp add: digit_char_zero_iff)
next
  case False
  have "str_nat (n div 10) @ [digit_char (n mod 10)] \<noteq> [CHR ''0'']"
    using str_nat_not_empty [of "n div 10"] by (cases "str_nat (n div 10)") simp_all
  with False show ?thesis
    by (subst str_nat.simps) simp
qed

lemma py_str_zero_iff: "py_str i = ''0'' \<longleftrightarrow> i = 0"
  by (auto simp: py_str_def str_nat_zero_iff)

subsection \<open>What \<^verbatim>\<open>run_command\<close> computes\<close>

lemma captured_merged [simp]:
  "captured_stdout PIPE STDOUT ws = Some (concat (map snd ws))"
  "captured_stderr STDOUT ws = None"
  by (simp_all add: captured_stdout_def captured_stderr_def)

lemma run_command_launch_error:
  assumes "popen e cmd (files w) = Inl ex"
  shows "run_command e cmd w =
           (Inl ex, w\<lparr>log_records := log_records w @ [(INFO, ''running command: '' @ join '' '' cmd @ '' '')],
                        launches := launches w @ [cmd],
                        ticks := Suc (ticks w)\<rparr>)"
  using assms
  by (simp add: run_command_def subprocess_run_def datetime_now_def logging_def Let_def)

lemma run_command_undecodable:
  assumes "popen e cmd (files w) = Inr c" and "decode e (concat (map snd (writes c))) = None"
  shows "run_command e cmd w =
           (Inl UnicodeDecodeError,
            w\<lparr>files := files_after c,
              log_records := log_records w @ [(INFO, ''running command: '' @ join '' '' cmd @ '' '')],
              launches := launches w @ [cmd],
              ticks := Suc (ticks w)\<rparr>)"
  using assms
  by (simp add: run_command_def subprocess_run_def read_pipe_def datetime_now_def logging_def Let_def)

lemma run_command_launched:
  assumes "popen e cmd (files w) = Inr c" and "decode e (concat (map snd (writes c))) = Some t"
  shows "run_command e cmd w =
           (if exitcode c = 0 then Inr (Some (None, Some (universal_newlines t), 0)) else Inr None,
            w\<lparr>files := files_after c,
              log_records := log_records w
                 @ run_log cmd c (universal_newlines t) (clock e (Suc (ticks w)) - clock e (ticks w)),
              launches := launches w @ [cmd],
              ticks := Suc (Suc (ticks w))\<rparr>)"
  using assms
  by (simp add: run_command_def subprocess_run_def read_pipe_def datetime_now_def logging_def Let_def
      py_str_zero_iff run_log_def)

text \<open>The three ways a call can go.\<close>

lemma run_command_cases:
  obtains (launch_error) ex where "popen e cmd (files w) = Inl ex"
  | (undecodable) c where "popen e cmd (files w) = Inr c"
      and "decode e (concat (map snd (writes c))) = None"
  | (completed) c t where "popen e cmd (files w) = Inr c"
      and "decode e (concat (map snd (writes c))) = Some t"
proof (cases "popen e cmd (files w)")
  case (Inl ex)
  then show ?thesis
    by (rule launch_error)
next
  case (Inr c)
  then show ?thesis
    by (cases "decode e (concat (map snd (writes c)))") (auto intro: undecodable completed)
qed

subsection \<open>Which exceptions can leave, and what the handler would see\<close>

lemma popen_raises:
  "popen e cmd fs = Inl ex \<Longrightarrow>
   ex \<in> {IndexError, ValueError, FileNotFoundError, PermissionError, OSError}"
  by (auto simp: popen_def split: list.splits if_splits resolution.splits)

lemma run_command_raises:
  assumes "fst (run_command e cmd w) = Inl ex"
  shows "ex \<in> {IndexError, ValueError, FileNotFoundError, PermissionError, OSError, UnicodeDecodeError}"
proof (cases e cmd w rule: run_command_cases)
  case (launch_error ex')
  with assms have "ex' = ex"
    by (simp add: run_command_launch_error)
  with launch_error show ?thesis
    by (auto dest: popen_raises)
next
  case (undecodable c)
  with assms show ?thesis
    by (simp add: run_command_undecodable)
next
  case (completed c t)
  with assms show ?thesis
    by (simp add: run_command_launched split: if_splits)
qed

lemma run_command_logs_no_error:
  "filter (\<lambda>r. fst r = ERROR) (log_records (snd (run_command e cmd w)))
     = filter (\<lambda>r. fst r = ERROR) (log_records w)"
proof (cases e cmd w rule: run_command_cases)
  case (launch_error ex)
  then show ?thesis
    by (simp add: run_command_launch_error)
next
  case (undecodable c)
  then show ?thesis
    by (simp add: run_command_undecodable)
next
  case (completed c t)
  then show ?thesis
    by (simp add: run_command_launched run_log_def)
qed

lemma try_run_command_unhandled:
  "try_run_command e cmd problem w = run_command_unhandled e cmd w"
proof (cases "run_command e cmd w")
  case (Pair r w1)
  show ?thesis
  proof (cases r)
    case (Inl ex)
    with Pair have "fst (run_command e cmd w) = Inl ex"
      by simp
    then have "ex \<noteq> NonZeroReturnException"
      by (auto dest: run_command_raises)
    with Pair Inl show ?thesis
      by (simp add: try_run_command_def run_command_unhandled_def)
  next
    case (Inr v)
    with Pair show ?thesis
      by (simp add: try_run_command_def run_command_unhandled_def)
  qed
qed

lemma run_command_unhandled_world:
  "snd (run_command_unhandled e cmd w) = snd (run_command e cmd w)"
  by (simp add: run_command_unhandled_def split: prod.splits sum.splits)

lemma run_command_unhandled_raises:
  "fst (run_command_unhandled e cmd w) = Inl ex \<Longrightarrow> fst (run_command e cmd w) = Inl ex"
  by (simp add: run_command_unhandled_def split: prod.splits sum.splits)

lemma shutil_rmtree_raises:
  "fst (shutil_rmtree e path w) = Inl ex \<Longrightarrow>
   ex \<in> {FileNotFoundError, NotADirectoryError, OSError, PermissionError}"
  by (auto simp: shutil_rmtree_def split: option.splits node.splits)

lemma shutil_rmtree_log [simp]:
  "log_records (snd (shutil_rmtree e path w)) = log_records w"
  by (simp add: shutil_rmtree_def split: option.splits node.splits)


lemma star_nowasp_no_handler:
  "fst (star_nowasp e end1 end2 outprefix outtemp nthreads genomedir w) \<noteq> Inl NameError
   \<and> filter (\<lambda>r. fst r = ERROR)
        (log_records (snd (star_nowasp e end1 end2 outprefix outtemp nthreads genomedir w)))
      = filter (\<lambda>r. fst r = ERROR) (log_records w)"
proof -
  let ?cmd = "star_nowasp_cmd end1 end2 outprefix outtemp nthreads genomedir"
  obtain r w1 where run: "run_command_unhandled e ?cmd w = (r, w1)"
    by (cases "run_command_unhandled e ?cmd w")
  obtain r2 w2 where rm1: "shutil_rmtree e (outprefix @ ''_STARgenome'') w1 = (r2, w2)"
    by (cases "shutil_rmtree e (outprefix @ ''_STARgenome'') w1")
  obtain r3 w3 where rm2: "shutil_rmtree e (outprefix @ ''_STARpass1'') w2 = (r3, w3)"
    by (cases "shutil_rmtree e (outprefix @ ''_STARpass1'') w2")
  have w1: "w1 = snd (run_command e ?cmd w)"
    using run run_command_unhandled_world [of e ?cmd w] by simp
  have r: "r \<noteq> Inl NameError"
    using run run_command_unhandled_raises [of e ?cmd w NameError] run_command_raises [of e ?cmd w NameError]
    by auto
  have r2: "r2 \<noteq> Inl NameError"
    using rm1 shutil_rmtree_raises [of e "outprefix @ ''_STARgenome''" w1 NameError] by auto
  have r3: "r3 \<noteq> Inl NameError"
    using rm2 shutil_rmtree_raises [of e "outprefix @ ''_STARpass1''" w2 NameError] by auto
  have logs: "log_records w3 = log_records w1" "log_records w2 = log_records w1"
    using rm1 rm2 shutil_rmtree_log [of e "outprefix @ ''_STARgenome''" w1]
      shutil_rmtree_log [of e "outprefix @ ''_STARpass1''" w2] by simp_all
  have kept: "filter (\<lambda>r. fst r = ERROR) (log_records w1) = filter (\<lambda>r. fst r = ERROR) (log_records w)"
    unfolding w1 by (rule run_command_logs_no_error)
  show ?thesis
    using run rm1 rm2 r r2 r3 logs kept
    by (auto simp: star_nowasp_def try_run_command_unhandled split: sum.splits)
qed

subsection \<open>The cleanup of the alignment\<close>

lemma star_dirs_apart:
  "outprefix @ ''_STARpass1'' \<noteq> outprefix @ ''_STARgenome''"
  "\<not> prefix ((outprefix @ ''_STARgenome'') @ ''/'') (outprefix @ ''_STARpass1'')"
  by simp_all

lemma star_nowasp_unfold:
  assumes "run_command_unhandled e (star_nowasp_cmd end1 end2 outprefix outtemp nthreads genomedir) w = (r, w1)"
  shows "star_nowasp e end1 end2 outprefix outtemp nthreads genomedir w =
     (case shutil_rmtree e (outprefix @ ''_STARgenome'') w1 of
        (Inl ex, w2) \<Rightarrow> (Inl ex, w2)
      | (Inr u, w2) \<Rightarrow>
          (case shutil_rmtree e (outprefix @ ''_STARpass1'') w2 of
             (Inl ex, w3) \<Rightarrow> (Inl ex, w3)
           | (Inr u', w3) \<Rightarrow> (r, w3)))"
  using assms by (simp add: star_nowasp_def try_run_command_unhandled)

lemma star_nowasp_log:
  "log_records (snd (star_nowasp e end1 end2 outprefix outtemp nthreads genomedir w))
     = log_records (snd (run_command e (star_nowasp_cmd end1 end2 outprefix outtemp nthreads genomedir) w))"
proof -
  let ?cmd = "star_nowasp_cmd end1 end2 outprefix outtemp nthreads genomedir"
  obtain r w1 where run: "run_command_unhandled e ?cmd w = (r, w1)"
    by (cases "run_command_unhandled e ?cmd w")
  then have w1: "snd (run_command e ?cmd w) = w1"
    using run_command_unhandled_world [of e ?cmd w] by simp
  show ?thesis
    unfolding star_nowasp_unfold [OF run] w1
    by (simp add: shutil_rmtree_def split: option.splits node.splits)
qed

subsection \<open>The concrete machine\<close>

lemma utf8_valid_ascii:
  "\<forall>b \<in> set bytes. of_char b < (0x80::nat) \<Longrightarrow> utf8_valid bytes"
  by (induction bytes) simp_all

lemma utf8_decode_ascii:
  "\<forall>b \<in> set bytes. of_char b < (0x80::nat) \<Longrightarrow> utf8_decode bytes = Some bytes"
  by (simp add: utf8_decode_def utf8_valid_ascii)

lemma star_launch_empty:
  "popen demo_env (star_nowasp_cmd ''r1.fq'' ''r2.fq'' ''out'' ''tmp'' ''4'' ''genome'') (files empty_world)
     = Inr \<lparr>writes = [(Stderr, ''EXITING: could not open readFilesIn'')], exitcode = 104,
            files_after = files empty_world\<rparr>"
  by (simp add: popen_def demo_env_def demo_program_def star_nowasp_cmd_def empty_world_def)

lemma star_launch_stale:
  "popen demo_env (star_nowasp_cmd ''r1.fq'' ''r2.fq'' ''out'' ''tmp'' ''4'' ''genome'') (files stale_world)
     = Inr \<lparr>writes = [(Stderr, ''EXITING: could not open readFilesIn'')], exitcode = 104,
            files_after = files stale_world\<rparr>"
  by (simp add: popen_def demo_env_def demo_program_def star_nowasp_cmd_def stale_world_def)

lemma star_launch_reads:
  "popen demo_env (star_nowasp_cmd ''r1.fq'' ''r2.fq'' ''out'' ''tmp'' ''4'' ''genome'') (files reads_world)
     = Inr \<lparr>writes = [], exitcode = 0,
            files_after = (files reads_world)(''out_STARgenome'' \<mapsto> Directory,
                                              ''out_STARpass1'' \<mapsto> Directory)\<rparr>"
  by (simp add: popen_def demo_env_def demo_program_def star_nowasp_cmd_def reads_world_def)

lemma star_decode_complaint:
  "decode demo_env (concat (map snd (writes
     \<lparr>writes = [(Stderr, ''EXITING: could not open readFilesIn'')], exitcode = 104,
      files_after = files empty_world\<rparr>))) = Some ''EXITING: could not open readFilesIn''"
  by (simp add: demo_env_def utf8_decode_ascii)

lemma star_decode_complaint_stale:
  "decode demo_env (concat (map snd (writes
     \<lparr>writes = [(Stderr, ''EXITING: could not open readFilesIn'')], exitcode = 104,
      files_after = files stale_world\<rparr>))) = Some ''EXITING: could not open readFilesIn''"
  by (simp add: demo_env_def utf8_decode_ascii)

lemma star_decode_silent:
  "decode demo_env (concat (map snd (writes
     \<lparr>writes = [], exitcode = 0,
      files_after = (files reads_world)(''out_STARgenome'' \<mapsto> Directory,
                                        ''out_STARpass1'' \<mapsto> Directory)\<rparr>))) = Some []"
  by (simp add: demo_env_def utf8_decode_def)

subsection \<open>More of the concrete machine\<close>

lemma echo_launch:
  "popen demo_env [''echo'', ''hi''] (files empty_world)
     = Inr \<lparr>writes = [(Stdout, ''hi'' @ [CHR 0x0A])], exitcode = 0, files_after = files empty_world\<rparr>"
  by (simp add: popen_def demo_env_def demo_program_def)

lemma echo_decode:
  "decode demo_env (concat (map snd (writes
     \<lparr>writes = [(Stdout, ''hi'' @ [CHR 0x0A])], exitcode = 0, files_after = files empty_world\<rparr>)))
   = Some (''hi'' @ [CHR 0x0A])"
  by (simp add: demo_env_def utf8_decode_ascii)

lemma view_launch:
  "popen demo_env [''samtools'', ''view'', ''-b'', ''x.bam''] (files empty_world)
     = Inr \<lparr>writes = [(Stdout, bgzf_magic)], exitcode = 0, files_after = files empty_world\<rparr>"
  by (simp add: popen_def demo_env_def demo_program_def)

lemma view_region_launch:
  "popen demo_env [''samtools'', ''view'', ''-b'', ''x.bam'', ''chrX''] (files empty_world)
     = Inr \<lparr>writes = [(Stdout, bgzf_magic), (Stderr, ''[main_samview] no index'')], exitcode = 1,
            files_after = files empty_world\<rparr>"
  by (simp add: popen_def demo_env_def demo_program_def)

lemma bgzf_undecodable: "decode demo_env (bgzf_magic @ rest) = None"
  by (simp add: demo_env_def utf8_decode_def bgzf_magic_def)

lemma index_launch:
  "popen demo_env (samtools_index_cmd ''x.bam'' ''2'') (files empty_world)
     = Inr \<lparr>writes = [(Stderr, ''[bam_sort_core] merging''), (Stdout, [CHR 0x0A]), (Stdout, ''done'')],
            exitcode = 0, files_after = files empty_world\<rparr>"
  by (simp add: popen_def demo_env_def demo_program_def samtools_index_cmd_def)

lemma index_decode:
  "decode demo_env (concat (map snd (writes
     \<lparr>writes = [(Stderr, ''[bam_sort_core] merging''), (Stdout, [CHR 0x0A]), (Stdout, ''done'')],
      exitcode = 0, files_after = files empty_world\<rparr>)))
   = Some (''[bam_sort_core] merging'' @ [CHR 0x0A] @ ''done'')"
  by (simp add: demo_env_def utf8_decode_ascii)

lemma printf_launch:
  "popen demo_env [''printf'', ''a'' @ [CHR 0x5C] @ ''r'' @ [CHR 0x5C] @ ''nb'' @ [CHR 0x5C] @ ''rc''] (files empty_world)
     = Inr \<lparr>writes = [(Stdout, [CHR ''a'', CHR 0x0D, CHR 0x0A, CHR ''b'', CHR 0x0D, CHR ''c''])],
            exitcode = 0, files_after = files empty_world\<rparr>"
  by (simp add: popen_def demo_env_def demo_program_def)

lemma printf_decode:
  "decode demo_env (concat (map snd (writes
     \<lparr>writes = [(Stdout, [CHR ''a'', CHR 0x0D, CHR 0x0A, CHR ''b'', CHR 0x0D, CHR ''c''])],
      exitcode = 0, files_after = files empty_world\<rparr>)))
   = Some [CHR ''a'', CHR 0x0D, CHR 0x0A, CHR ''b'', CHR 0x0D, CHR ''c'']"
  by (simp add: demo_env_def utf8_decode_ascii)

subsection \<open>Exit code 0\<close>

text \<open>
  C1 says that every argument vector whose child exits with code 0 gets a triple with
  exit code 0. \<^verbatim>\<open>run_command\<close> reads the output with \<^verbatim>\<open>text=True\<close>: here
  \<^verbatim>\<open>samtools view -b\<close> prints compressed binary output and exits 0, the bytes do not
  decode, and the call ends in \<^verbatim>\<open>UnicodeDecodeError\<close>.
\<close>

theorem run_command_exit_zero_undecodable:
  "popen demo_env [''samtools'', ''view'', ''-b'', ''x.bam''] (files empty_world)
     = Inr \<lparr>writes = [(Stdout, bgzf_magic)], exitcode = 0, files_after = files empty_world\<rparr>
   \<and> fst (run_command demo_env [''samtools'', ''view'', ''-b'', ''x.bam''] empty_world)
     = Inl UnicodeDecodeError"
proof -
  have "decode demo_env (concat (map snd (writes
     \<lparr>writes = [(Stdout, bgzf_magic)], exitcode = 0, files_after = files empty_world\<rparr>))) = None"
    using bgzf_undecodable [of "[]"] by simp
  from run_command_undecodable [OF view_launch this] view_launch show ?thesis
    by simp
qed

text \<open>
  C1, as the code has it. For every argument vector whose child process exits with
  code 0 and whose captured output decodes in the locale encoding, \<^verbatim>\<open>run_command\<close>
  returns a triple (it neither raises nor returns \<^verbatim>\<open>None\<close>) whose third component, the
  exit code, is 0.
\<close>

theorem run_command_exit_zero:
  assumes "popen e cmd (files w) = Inr c" and "exitcode c = 0"
    and "decode e (concat (map snd (writes c))) = Some t"
  shows "\<exists>err out. fst (run_command e cmd w) = Inr (Some (err, out, 0))"
  using assms by (simp add: run_command_launched)

theorem run_command_exit_zero_witness:
  "popen demo_env [''echo'', ''hi''] (files empty_world)
     = Inr \<lparr>writes = [(Stdout, ''hi'' @ [CHR 0x0A])], exitcode = 0, files_after = files empty_world\<rparr>
   \<and> decode demo_env (''hi'' @ [CHR 0x0A]) = Some (''hi'' @ [CHR 0x0A])
   \<and> (\<exists>err out. fst (run_command demo_env [''echo'', ''hi''] empty_world) = Inr (Some (err, out, 0)))"
proof -
  from run_command_exit_zero [OF echo_launch _ echo_decode] echo_launch echo_decode show ?thesis
    by simp
qed

subsection \<open>Non-zero exit code\<close>

text \<open>
  C2 says that every argument vector whose child exits with a non-zero code makes
  \<^verbatim>\<open>run_command\<close> log a warning and return \<^verbatim>\<open>None\<close> without raising. Here
  \<^verbatim>\<open>samtools view -b\<close> on a region of a file without index prints the binary header,
  complains and exits 1: the output does not decode, the call ends in
  \<^verbatim>\<open>UnicodeDecodeError\<close>, and the only record logged is the one before the launch.
\<close>

theorem run_command_nonzero_exit_undecodable:
  "popen demo_env [''samtools'', ''view'', ''-b'', ''x.bam'', ''chrX''] (files empty_world)
     = Inr \<lparr>writes = [(Stdout, bgzf_magic), (Stderr, ''[main_samview] no index'')], exitcode = 1,
            files_after = files empty_world\<rparr>
   \<and> fst (run_command demo_env [''samtools'', ''view'', ''-b'', ''x.bam'', ''chrX''] empty_world)
     = Inl UnicodeDecodeError
   \<and> log_records (snd (run_command demo_env [''samtools'', ''view'', ''-b'', ''x.bam'', ''chrX''] empty_world))
     = [(INFO, ''running command: samtools view -b x.bam chrX '')]"
proof -
  have "decode demo_env (concat (map snd (writes
     \<lparr>writes = [(Stdout, bgzf_magic), (Stderr, ''[main_samview] no index'')], exitcode = 1,
      files_after = files empty_world\<rparr>))) = None"
    using bgzf_undecodable [of "''[main_samview] no index''"] by simp
  from run_command_undecodable [OF view_region_launch this] view_region_launch show ?thesis
    by (simp add: empty_world_def)
qed

text \<open>
  C2, as the code has it. For every argument vector whose child process exits with a
  non-zero code and whose captured output decodes in the locale encoding,
  \<^verbatim>\<open>run_command\<close> raises nothing and returns \<^verbatim>\<open>None\<close>, with no failure signal in
  the value; the last record it logs is a warning that names the command, and no other
  record it logs is a warning or an error.
\<close>

theorem run_command_nonzero_exit:
  assumes "popen e cmd (files w) = Inr c" and "exitcode c \<noteq> 0"
    and "decode e (concat (map snd (writes c))) = Some t"
  shows "fst (run_command e cmd w) = Inr None
       \<and> (\<exists>earlier. log_records (snd (run_command e cmd w))
             = log_records w @ earlier @ [(WARNING, ''non-zero return code for cmd '' @ join '' '' cmd)]
           \<and> WARNING \<notin> fst ` set earlier \<and> ERROR \<notin> fst ` set earlier)"
proof -
  let ?log = "run_log cmd c (universal_newlines t) (clock e (Suc (ticks w)) - clock e (ticks w))"
  have "?log = butlast ?log @ [(WARNING, ''non-zero return code for cmd '' @ join '' '' cmd)]"
    using assms(2) by (simp add: run_log_def)
  moreover have "WARNING \<notin> fst ` set (butlast ?log)" and "ERROR \<notin> fst ` set (butlast ?log)"
    by (simp_all add: run_log_def)
  ultimately show ?thesis
    using assms by (simp add: run_command_launched) metis
qed

theorem run_command_nonzero_exit_witness:
  "popen demo_env (star_nowasp_cmd ''r1.fq'' ''r2.fq'' ''out'' ''tmp'' ''4'' ''genome'') (files empty_world)
     = Inr \<lparr>writes = [(Stderr, ''EXITING: could not open readFilesIn'')], exitcode = 104,
            files_after = files empty_world\<rparr>
   \<and> decode demo_env ''EXITING: could not open readFilesIn'' = Some ''EXITING: could not open readFilesIn''
   \<and> fst (run_command demo_env (star_nowasp_cmd ''r1.fq'' ''r2.fq'' ''out'' ''tmp'' ''4'' ''genome'') empty_world)
       = Inr None
   \<and> (\<exists>earlier. log_records (snd (run_command demo_env
                    (star_nowasp_cmd ''r1.fq'' ''r2.fq'' ''out'' ''tmp'' ''4'' ''genome'') empty_world))
         = log_records empty_world @ earlier
             @ [(WARNING, ''non-zero return code for cmd ''
                   @ join '' '' (star_nowasp_cmd ''r1.fq'' ''r2.fq'' ''out'' ''tmp'' ''4'' ''genome''))]
       \<and> WARNING \<notin> fst ` set earlier \<and> ERROR \<notin> fst ` set earlier)"
proof -
  from run_command_nonzero_exit [OF star_launch_empty _ star_decode_complaint]
    star_launch_empty star_decode_complaint
  show ?thesis
    by simp
qed

subsection \<open>Executable not found\<close>

text \<open>
  C3. For every argument vector whose first token does not resolve to an executable
  (no such file, no execute permission, or not startable), the launch failure leaves
  \<^verbatim>\<open>run_command\<close> as an exception: \<^verbatim>\<open>FileNotFoundError\<close>, \<^verbatim>\<open>PermissionError\<close>
  or \<^verbatim>\<open>OSError\<close> (\<^verbatim>\<open>ValueError\<close> when a token holds a null byte, which is rejected
  before the search). That outcome differs from the outcome of every call whose child
  exits non-zero.
\<close>

theorem run_command_not_found:
  assumes "resolve e prog \<noteq> Executable"
  shows "fst (run_command e (prog # rest) w)
           = Inl (if CHR 0x00 \<in> set (concat (prog # rest)) then ValueError
                  else if resolve e prog = Not_Found then FileNotFoundError
                  else if resolve e prog = Not_Executable then PermissionError
                  else OSError)
       \<and> (\<forall>e' cmd' w' c. popen e' cmd' (files w') = Inr c \<longrightarrow> exitcode c \<noteq> 0 \<longrightarrow>
             fst (run_command e (prog # rest) w) \<noteq> fst (run_command e' cmd' w'))"
proof -
  let ?ex = "if CHR 0x00 \<in> set (concat (prog # rest)) then ValueError
             else if resolve e prog = Not_Found then FileNotFoundError
             else if resolve e prog = Not_Executable then PermissionError
             else OSError"
  have "popen e (prog # rest) (files w) = Inl ?ex"
    using assms by (cases "resolve e prog") (simp_all add: popen_def)
  then have raised: "fst (run_command e (prog # rest) w) = Inl ?ex"
    by (simp add: run_command_launch_error)
  have "fst (run_command e' cmd' w') \<in> {Inr None, Inl UnicodeDecodeError}"
    if "popen e' cmd' (files w') = Inr c" and "exitcode c \<noteq> 0" for e' cmd' w' c
    using that
    by (cases "decode e' (concat (map snd (writes c)))")
      (simp_all add: run_command_launched run_command_undecodable)
  moreover have "Inl ?ex \<notin> {Inr None, Inl UnicodeDecodeError}"
    by simp
  ultimately show ?thesis
    using raised by metis
qed

theorem run_command_not_found_witness:
  "resolve demo_env ''fasterq-dump'' \<noteq> Executable
   \<and> fst (run_command demo_env (fasterq_dump_cmd ''SRR1.sra'' ''out'' ''4'' ''tmp'') empty_world)
       = Inl FileNotFoundError
   \<and> fst (run_command demo_env (fasterq_dump_cmd ''SRR1.sra'' ''out'' ''4'' ''tmp'') empty_world)
       \<noteq> fst (run_command demo_env (star_nowasp_cmd ''r1.fq'' ''r2.fq'' ''out'' ''tmp'' ''4'' ''genome'') empty_world)
   \<and> resolve demo_env ''gatk'' \<noteq> Executable
   \<and> fst (run_command demo_env (gatk_sncr_cmd ''in.bam'' ''out.bam'' ''genome.fa'') empty_world)
       = Inl PermissionError"
proof -
  have missing: "resolve demo_env ''fasterq-dump'' \<noteq> Executable"
    and found: "resolve demo_env ''fasterq-dump'' = Not_Found"
    and locked: "resolve demo_env ''gatk'' \<noteq> Executable"
    and refused: "resolve demo_env ''gatk'' = Not_Executable"
    by (simp_all add: demo_env_def)
  let ?dump = "fasterq_dump_cmd ''SRR1.sra'' ''out'' ''4'' ''tmp''"
  let ?gatk = "gatk_sncr_cmd ''in.bam'' ''out.bam'' ''genome.fa''"
  have dump: "?dump = ''fasterq-dump'' # tl ?dump" and dump_clean: "CHR 0x00 \<notin> set (concat ?dump)"
    by (simp_all add: fasterq_dump_cmd_def)
  have gatk: "?gatk = ''gatk'' # tl ?gatk" and gatk_clean: "CHR 0x00 \<notin> set (concat ?gatk)"
    by (simp_all add: gatk_sncr_cmd_def)
  note at_dump = run_command_not_found [OF missing, of "tl ?dump" empty_world, folded dump]
  note at_gatk = run_command_not_found [OF locked, of "tl ?gatk" empty_world, folded gatk]
  from at_dump dump_clean found
  have 1: "fst (run_command demo_env ?dump empty_world) = Inl FileNotFoundError"
    by simp
  from at_dump have "\<forall>e' cmd' w' c. popen e' cmd' (files w') = Inr c \<longrightarrow> exitcode c \<noteq> 0 \<longrightarrow>
      fst (run_command demo_env ?dump empty_world) \<noteq> fst (run_command e' cmd' w')"
    by (rule conjunct2)
  from this [rule_format, OF star_launch_empty]
  have 2: "fst (run_command demo_env ?dump empty_world)
       \<noteq> fst (run_command demo_env (star_nowasp_cmd ''r1.fq'' ''r2.fq'' ''out'' ''tmp'' ''4'' ''genome'') empty_world)"
    by simp
  from at_gatk gatk_clean refused
  have 3: "fst (run_command demo_env ?gatk empty_world) = Inl PermissionError"
    by simp
  from missing locked 1 2 3 show ?thesis
    by blast
qed

subsection \<open>The handlers of the wrappers\<close>

text \<open>
  C4. \<^verbatim>\<open>run_command\<close> never raises \<^verbatim>\<open>NonZeroReturnException\<close>, so the
  \<^verbatim>\<open>except NonZeroReturnException\<close> clause of a wrapper never runs: each of
  \<^verbatim>\<open>fasterq_dump\<close>, \<^verbatim>\<open>samtools_sort\<close>, \<^verbatim>\<open>samtools_index\<close>,
  \<^verbatim>\<open>samtools_view_region\<close>, \<^verbatim>\<open>samtools_view_quality\<close>, \<^verbatim>\<open>gatk_arrg\<close>,
  \<^verbatim>\<open>gatk_md\<close>, \<^verbatim>\<open>gatk_sncr\<close> and \<^verbatim>\<open>gatk_htc\<close> does exactly what its block does
  with the clause taken away, and \<^verbatim>\<open>star_nowasp\<close> shows neither effect of its handler:
  it logs no error record and never ends in the handler's \<^verbatim>\<open>NameError\<close>.
\<close>

theorem handler_never_runs:
  "fst (run_command e cmd w) \<noteq> Inl NonZeroReturnException
   \<and> fasterq_dump e infile outdir nthreads tempdir w
       = run_command_unhandled e (fasterq_dump_cmd infile outdir nthreads tempdir) w
   \<and> samtools_sort e infile outfile memory nthreads w
       = run_command_unhandled e (samtools_sort_cmd infile outfile memory nthreads) w
   \<and> samtools_index e infile nthreads w
       = run_command_unhandled e (samtools_index_cmd infile nthreads) w
   \<and> samtools_view_region e infile outfile region w
       = run_command_unhandled e (samtools_view_region_cmd infile outfile region) w
   \<and> samtools_view_quality e infile outfile quality w
       = run_command_unhandled e (samtools_view_quality_cmd infile outfile quality) w
   \<and> gatk_arrg e infile outfile w = run_command_unhandled e (gatk_arrg_cmd infile outfile) w
   \<and> gatk_md e infile outfile metrics w
       = run_command_unhandled e (gatk_md_cmd infile outfile metrics) w
   \<and> gatk_sncr e infile outfile genome w
       = run_command_unhandled e (gatk_sncr_cmd infile outfile genome) w
   \<and> gatk_htc e infile outfile genome interval w
       = run_command_unhandled e (gatk_htc_cmd infile outfile genome interval) w
   \<and> fst (star_nowasp e end1 end2 outprefix outtemp nthreads genomedir w) \<noteq> Inl NameError
   \<and> filter (\<lambda>r. fst r = ERROR)
        (log_records (snd (star_nowasp e end1 end2 outprefix outtemp nthreads genomedir w)))
      = filter (\<lambda>r. fst r = ERROR) (log_records w)"
proof -
  have "fst (run_command e cmd w) \<noteq> Inl NonZeroReturnException"
    using run_command_raises [of e cmd w NonZeroReturnException] by auto
  then show ?thesis
    using star_nowasp_no_handler [of e end1 end2 outprefix outtemp nthreads genomedir w]
    by (simp add: try_run_command_unhandled fasterq_dump_def samtools_sort_def samtools_index_def
        samtools_view_region_def samtools_view_quality_def gatk_arrg_def gatk_md_def
        gatk_sncr_def gatk_htc_def)
qed

subsection \<open>Cleanup after the alignment\<close>

text \<open>
  C5. The cleanup of \<^verbatim>\<open>star_nowasp\<close> runs after every invocation, whatever
  \<^verbatim>\<open>run_command\<close> did (returned a triple, returned \<^verbatim>\<open>None\<close> after a failed
  alignment, or raised): with \<open>fs1\<close> the filesystem the invocation leaves, an absent
  \<^verbatim>\<open>{outprefix}_STARgenome\<close> makes the wrapper raise \<^verbatim>\<open>FileNotFoundError\<close>; a
  present one is removed, and then an absent \<^verbatim>\<open>{outprefix}_STARpass1\<close> makes the wrapper
  raise \<^verbatim>\<open>FileNotFoundError\<close>, and a present one is removed.
\<close>

theorem star_nowasp_cleanup_always:
  assumes "fs1 = files (snd (run_command e (star_nowasp_cmd end1 end2 outprefix outtemp nthreads genomedir) w))"
    and "result = star_nowasp e end1 end2 outprefix outtemp nthreads genomedir w"
  shows "(fs1 (outprefix @ ''_STARgenome'') = None \<longrightarrow> fst result = Inl FileNotFoundError)
       \<and> (fs1 (outprefix @ ''_STARgenome'') = Some Directory \<longrightarrow>
            files (snd result) (outprefix @ ''_STARgenome'') = None)
       \<and> (fs1 (outprefix @ ''_STARgenome'') = Some Directory \<longrightarrow>
            fs1 (outprefix @ ''_STARpass1'') = None \<longrightarrow> fst result = Inl FileNotFoundError)
       \<and> (fs1 (outprefix @ ''_STARgenome'') = Some Directory \<longrightarrow>
            fs1 (outprefix @ ''_STARpass1'') = Some Directory \<longrightarrow>
            files (snd result) (outprefix @ ''_STARpass1'') = None)"
proof -
  let ?cmd = "star_nowasp_cmd end1 end2 outprefix outtemp nthreads genomedir"
  obtain r w1 where run: "run_command_unhandled e ?cmd w = (r, w1)"
    by (cases "run_command_unhandled e ?cmd w")
  then have "w1 = snd (run_command e ?cmd w)"
    using run_command_unhandled_world [of e ?cmd w] by simp
  with assms(1) have fs1: "fs1 = files w1"
    by simp
  show ?thesis
    unfolding assms(2) star_nowasp_unfold [OF run] fs1
    using star_dirs_apart [of outprefix]
    by (auto simp: shutil_rmtree_def split: option.splits node.splits)
qed

theorem star_nowasp_cleanup_always_witness:
  "files (snd (run_command demo_env (star_nowasp_cmd ''r1.fq'' ''r2.fq'' ''out'' ''tmp'' ''4'' ''genome'') empty_world))
      (''out'' @ ''_STARgenome'') = None
   \<and> fst (run_command demo_env (star_nowasp_cmd ''r1.fq'' ''r2.fq'' ''out'' ''tmp'' ''4'' ''genome'') empty_world)
       = Inr None
   \<and> fst (star_nowasp demo_env ''r1.fq'' ''r2.fq'' ''out'' ''tmp'' ''4'' ''genome'' empty_world)
       = Inl FileNotFoundError
   \<and> files (snd (run_command demo_env (star_nowasp_cmd ''r1.fq'' ''r2.fq'' ''out'' ''tmp'' ''4'' ''genome'') stale_world))
      (''out'' @ ''_STARgenome'') = Some Directory
   \<and> files (snd (run_command demo_env (star_nowasp_cmd ''r1.fq'' ''r2.fq'' ''out'' ''tmp'' ''4'' ''genome'') stale_world))
      (''out'' @ ''_STARpass1'') = None
   \<and> fst (star_nowasp demo_env ''r1.fq'' ''r2.fq'' ''out'' ''tmp'' ''4'' ''genome'' stale_world)
       = Inl FileNotFoundError
   \<and> files (snd (star_nowasp demo_env ''r1.fq'' ''r2.fq'' ''out'' ''tmp'' ''4'' ''genome'' stale_world))
       (''out'' @ ''_STARgenome'') = None
   \<and> files (snd (run_command demo_env (star_nowasp_cmd ''r1.fq'' ''r2.fq'' ''out'' ''tmp'' ''4'' ''genome'') reads_world))
      (''out'' @ ''_STARgenome'') = Some Directory
   \<and> files (snd (run_command demo_env (star_nowasp_cmd ''r1.fq'' ''r2.fq'' ''out'' ''tmp'' ''4'' ''genome'') reads_world))
      (''out'' @ ''_STARpass1'') = Some Directory
   \<and> files (snd (star_nowasp demo_env ''r1.fq'' ''r2.fq'' ''out'' ''tmp'' ''4'' ''genome'' reads_world))
       (''out'' @ ''_STARgenome'') = None
   \<and> files (snd (star_nowasp demo_env ''r1.fq'' ''r2.fq'' ''out'' ''tmp'' ''4'' ''genome'' reads_world))
       (''out'' @ ''_STARpass1'') = None"
proof -
  let ?cmd = "star_nowasp_cmd ''r1.fq'' ''r2.fq'' ''out'' ''tmp'' ''4'' ''genome''"
  have empty: "files (snd (run_command demo_env ?cmd empty_world)) (''out'' @ ''_STARgenome'') = None"
    and failed: "fst (run_command demo_env ?cmd empty_world) = Inr None"
    unfolding run_command_launched [OF star_launch_empty star_decode_complaint] by (simp_all add: empty_world_def)
  have stale: "files (snd (run_command demo_env ?cmd stale_world)) (''out'' @ ''_STARgenome'') = Some Directory"
    "files (snd (run_command demo_env ?cmd stale_world)) (''out'' @ ''_STARpass1'') = None"
    unfolding run_command_launched [OF star_launch_stale star_decode_complaint_stale] by (simp_all add: stale_world_def)
  have made: "files (snd (run_command demo_env ?cmd reads_world)) (''out'' @ ''_STARgenome'') = Some Directory"
    "files (snd (run_command demo_env ?cmd reads_world)) (''out'' @ ''_STARpass1'') = Some Directory"
    unfolding run_command_launched [OF star_launch_reads star_decode_silent] by simp_all
  note at_empty = star_nowasp_cleanup_always
      [of _ demo_env "''r1.fq''" "''r2.fq''" "''out''" "''tmp''" "''4''" "''genome''" empty_world _, OF refl refl]
  note at_stale = star_nowasp_cleanup_always
      [of _ demo_env "''r1.fq''" "''r2.fq''" "''out''" "''tmp''" "''4''" "''genome''" stale_world _, OF refl refl]
  note at_reads = star_nowasp_cleanup_always
      [of _ demo_env "''r1.fq''" "''r2.fq''" "''out''" "''tmp''" "''4''" "''genome''" reads_world _, OF refl refl]
  from at_empty empty have 1: "fst (star_nowasp demo_env ''r1.fq'' ''r2.fq'' ''out'' ''tmp'' ''4'' ''genome'' empty_world)
       = Inl FileNotFoundError"
    by blast
  from at_stale stale have 2: "fst (star_nowasp demo_env ''r1.fq'' ''r2.fq'' ''out'' ''tmp'' ''4'' ''genome'' stale_world)
       = Inl FileNotFoundError"
    and 3: "files (snd (star_nowasp demo_env ''r1.fq'' ''r2.fq'' ''out'' ''tmp'' ''4'' ''genome'' stale_world))
       (''out'' @ ''_STARgenome'') = None"
    by blast+
  from at_reads made have 4: "files (snd (star_nowasp demo_env ''r1.fq'' ''r2.fq'' ''out'' ''tmp'' ''4'' ''genome'' reads_world))
       (''out'' @ ''_STARgenome'') = None"
    and 5: "files (snd (star_nowasp demo_env ''r1.fq'' ''r2.fq'' ''out'' ''tmp'' ''4'' ''genome'' reads_world))
       (''out'' @ ''_STARpass1'') = None"
    by blast+
  from empty failed stale made 1 2 3 4 5 show ?thesis
    by blast
qed

subsection \<open>Cleanup of a directory that does not exist\<close>




subsection \<open>What is launched\<close>

text \<open>
  C7. For every argument vector, what \<^verbatim>\<open>run_command\<close> hands to \<^verbatim>\<open>subprocess.run\<close>
  is the token list itself, unchanged, and nothing else is launched: the filesystem left
  and the value returned are those of launching that list. The space-joined string
  appears in the log records only.
\<close>

theorem run_command_passes_token_list:
  "launches (snd (run_command e cmd w)) = launches w @ [cmd]
   \<and> files (snd (run_command e cmd w))
       = (case popen e cmd (files w) of Inl ex \<Rightarrow> files w | Inr c \<Rightarrow> files_after c)
   \<and> fst (run_command e cmd w)
       = (case popen e cmd (files w) of
            Inl ex \<Rightarrow> Inl ex
          | Inr c \<Rightarrow>
              (case decode e (concat (map snd (writes c))) of
                 None \<Rightarrow> Inl UnicodeDecodeError
               | Some t \<Rightarrow> if exitcode c = 0 then Inr (Some (None, Some (universal_newlines t), 0))
                           else Inr None))"
proof (cases e cmd w rule: run_command_cases)
  case (launch_error ex)
  then show ?thesis
    by (simp add: run_command_launch_error)
next
  case (undecodable c)
  then show ?thesis
    by (simp add: run_command_undecodable)
next
  case (completed c t)
  then show ?thesis
    by (simp add: run_command_launched)
qed

subsection \<open>Captured output\<close>

text \<open>
  C8 says that for a command that prints text and exits 0 the captured output text
  equals the printed text. The pipe is read with \<^verbatim>\<open>text=True\<close>: here \<^verbatim>\<open>printf\<close>
  prints \<^verbatim>\<open>a\r\nb\rc\<close> and exits 0, and the text captured is \<^verbatim>\<open>a\nb\nc\<close>.
\<close>

theorem run_command_output_translated:
  "popen demo_env [''printf'', ''a'' @ [CHR 0x5C] @ ''r'' @ [CHR 0x5C] @ ''nb'' @ [CHR 0x5C] @ ''rc''] (files empty_world)
     = Inr \<lparr>writes = [(Stdout, [CHR ''a'', CHR 0x0D, CHR 0x0A, CHR ''b'', CHR 0x0D, CHR ''c''])],
            exitcode = 0, files_after = files empty_world\<rparr>
   \<and> fst (run_command demo_env
            [''printf'', ''a'' @ [CHR 0x5C] @ ''r'' @ [CHR 0x5C] @ ''nb'' @ [CHR 0x5C] @ ''rc''] empty_world)
     = Inr (Some (None, Some [CHR ''a'', CHR 0x0A, CHR ''b'', CHR 0x0A, CHR ''c''], 0))
   \<and> [CHR ''a'', CHR 0x0A, CHR ''b'', CHR 0x0A, CHR ''c'']
     \<noteq> [CHR ''a'', CHR 0x0D, CHR 0x0A, CHR ''b'', CHR 0x0D, CHR ''c'']"
proof -
  have "fst (run_command demo_env
            [''printf'', ''a'' @ [CHR 0x5C] @ ''r'' @ [CHR 0x5C] @ ''nb'' @ [CHR 0x5C] @ ''rc''] empty_world)
     = Inr (Some (None, Some [CHR ''a'', CHR 0x0A, CHR ''b'', CHR 0x0A, CHR ''c''], 0))"
    unfolding run_command_launched [OF printf_launch printf_decode] by simp
  with printf_launch show ?thesis
    by simp
qed

text \<open>
  C8, as the code has it. The child is launched with its standard error merged into
  the captured standard output, so for a command that exits 0 and whose output
  decodes, the triple returned has exit code 0 and, as output text, everything the child
  printed on either stream, in the order printed, decoded, with every \<^verbatim>\<open>\r\n\<close> and
  every other \<^verbatim>\<open>\r\<close> turned into \<^verbatim>\<open>\n\<close>; that is the printed text itself when it
  holds no \<^verbatim>\<open>\r\<close>.
\<close>

theorem run_command_captures_merged_output:
  assumes "popen e cmd (files w) = Inr c" and "exitcode c = 0"
    and "decode e (concat (map snd (writes c))) = Some t"
  shows "(\<exists>err. fst (run_command e cmd w) = Inr (Some (err, Some (universal_newlines t), 0)))
       \<and> (CHR 0x0D \<notin> set t \<longrightarrow> (\<exists>err. fst (run_command e cmd w) = Inr (Some (err, Some t, 0))))"
  using assms by (simp add: run_command_launched universal_newlines_no_cr)

theorem run_command_captures_merged_output_witness:
  "popen demo_env [''echo'', ''hi''] (files empty_world)
     = Inr \<lparr>writes = [(Stdout, ''hi'' @ [CHR 0x0A])], exitcode = 0, files_after = files empty_world\<rparr>
   \<and> decode demo_env (''hi'' @ [CHR 0x0A]) = Some (''hi'' @ [CHR 0x0A])
   \<and> CHR 0x0D \<notin> set (''hi'' @ [CHR 0x0A])
   \<and> (\<exists>err. fst (run_command demo_env [''echo'', ''hi''] empty_world)
          = Inr (Some (err, Some (''hi'' @ [CHR 0x0A]), 0)))
   \<and> popen demo_env (samtools_index_cmd ''x.bam'' ''2'') (files empty_world)
     = Inr \<lparr>writes = [(Stderr, ''[bam_sort_core] merging''), (Stdout, [CHR 0x0A]), (Stdout, ''done'')],
            exitcode = 0, files_after = files empty_world\<rparr>
   \<and> (\<exists>err. fst (run_command demo_env (samtools_index_cmd ''x.bam'' ''2'') empty_world)
          = Inr (Some (err, Some (''[bam_sort_core] merging'' @ [CHR 0x0A] @ ''done''), 0)))"
proof -
  have plain: "CHR 0x0D \<notin> set (''hi'' @ [CHR 0x0A])"
    and merged: "CHR 0x0D \<notin> set (''[bam_sort_core] merging'' @ [CHR 0x0A] @ ''done'')"
    by simp_all
  from run_command_captures_merged_output [OF echo_launch _ echo_decode] plain
  have 1: "\<exists>err. fst (run_command demo_env [''echo'', ''hi''] empty_world)
          = Inr (Some (err, Some (''hi'' @ [CHR 0x0A]), 0))"
    by simp
  from run_command_captures_merged_output [OF index_launch _ index_decode] merged
  have 2: "\<exists>err. fst (run_command demo_env (samtools_index_cmd ''x.bam'' ''2'') empty_world)
          = Inr (Some (err, Some (''[bam_sort_core] merging'' @ [CHR 0x0A] @ ''done''), 0))"
    by simp
  from echo_launch echo_decode plain index_launch 1 2 show ?thesis
    by simp
qed

subsection \<open>Two runs\<close>

text \<open>
  C9. Two invocations of \<^verbatim>\<open>run_command\<close> with the same argument vector on the same
  machine, from worlds with the same filesystem (the log, the clock readings and the
  launches so far may differ), end the same way: the same value or exception, hence
  the same exit code, the same closing log record (success or warning), and the same
  filesystem.
\<close>

theorem run_command_twice_same:
  assumes "files w1 = files w2"
  shows "fst (run_command e cmd w1) = fst (run_command e cmd w2)
       \<and> last (log_records (snd (run_command e cmd w1))) = last (log_records (snd (run_command e cmd w2)))
       \<and> files (snd (run_command e cmd w1)) = files (snd (run_command e cmd w2))"
proof (cases e cmd w1 rule: run_command_cases)
  case (launch_error ex)
  moreover from launch_error assms have "popen e cmd (files w2) = Inl ex"
    by simp
  ultimately show ?thesis
    using assms by (simp add: run_command_launch_error)
next
  case (undecodable c)
  moreover from undecodable assms have "popen e cmd (files w2) = Inr c"
    by simp
  ultimately show ?thesis
    by (simp add: run_command_undecodable)
next
  case (completed c t)
  moreover from completed assms have "popen e cmd (files w2) = Inr c"
    by simp
  ultimately show ?thesis
    by (simp add: run_command_launched run_log_def)
qed

theorem run_command_twice_same_witness:
  "files empty_world = files (snd (run_command demo_env [''echo'', ''hi''] empty_world))
   \<and> empty_world \<noteq> snd (run_command demo_env [''echo'', ''hi''] empty_world)
   \<and> fst (run_command demo_env [''echo'', ''hi''] empty_world)
       = fst (run_command demo_env [''echo'', ''hi''] (snd (run_command demo_env [''echo'', ''hi''] empty_world)))"
proof -
  have same: "files empty_world = files (snd (run_command demo_env [''echo'', ''hi''] empty_world))"
    unfolding run_command_launched [OF echo_launch echo_decode] by simp
  have "ticks empty_world \<noteq> ticks (snd (run_command demo_env [''echo'', ''hi''] empty_world))"
    unfolding run_command_launched [OF echo_launch echo_decode] by (simp add: empty_world_def)
  then have differ: "empty_world \<noteq> snd (run_command demo_env [''echo'', ''hi''] empty_world)"
    by auto
  from run_command_twice_same [OF same, of demo_env "[''echo'', ''hi'']"] same differ show ?thesis
    by simp
qed

subsection \<open>The error-stream component\<close>

text \<open>
  C10. Whenever \<^verbatim>\<open>run_command\<close> returns a triple, which it does on exit code 0 only,
  the first component, the captured error-stream text, is \<^verbatim>\<open>None\<close>.
\<close>

theorem run_command_error_stream_none:
  assumes "fst (run_command e cmd w) = Inr (Some (err, out, rc))"
  shows "err = None"
proof (cases e cmd w rule: run_command_cases)
  case (launch_error ex)
  with assms show ?thesis
    by (simp add: run_command_launch_error)
next
  case (undecodable c)
  with assms show ?thesis
    by (simp add: run_command_undecodable)
next
  case (completed c t)
  with assms show ?thesis
    by (simp add: run_command_launched split: if_splits)
qed

theorem run_command_error_stream_none_witness:
  "fst (run_command demo_env (samtools_index_cmd ''x.bam'' ''2'') empty_world)
     = Inr (Some (None, Some (''[bam_sort_core] merging'' @ [CHR 0x0A] @ ''done''), 0))"
proof -
  obtain err where returned: "fst (run_command demo_env (samtools_index_cmd ''x.bam'' ''2'') empty_world)
     = Inr (Some (err, Some (''[bam_sort_core] merging'' @ [CHR 0x0A] @ ''done''), 0))"
    unfolding run_command_launched [OF index_launch index_decode] by simp
  from run_command_error_stream_none [OF returned] returned show ?thesis
    by simp
qed

end
